theory Spec2Isabelle
  imports Complex_Main "HOL-Library.Log_Nat"
begin

section \<open>Errors and panics as values\<close>

text \<open>
  Go errors are values.  \<open>ErrNoDataUnexpected\<close> is the sentinel
  \<^verbatim>\<open>types.ErrNoDataUnexpected\<close> that \<^verbatim>\<open>adfs.go\<close> wraps; \<open>Pdh\<close> carries an
  error handed up by the \<^verbatim>\<open>pdh\<close> acquisition layer, classified as in the
  specification's taxonomy; \<open>Errorf m e\<close> is \<^verbatim>\<open>fmt.Errorf(m + ": %w", e)\<close>, an error
  that unwraps to \<open>e\<close>.
\<close>

datatype pdh_error =
    ConfigurationError
  | CounterObjectUnavailable
  | TransientCollectionError
  | DecodeError
  | NoDataError
  | TypeMismatchError

datatype error =
    ErrNoDataUnexpected
  | Pdh pdh_error
  | InvalidMetricName string
  | InconsistentCardinality
  | Errorf string error

text \<open>\<^verbatim>\<open>errors.Is\<close>: the target is the error itself or is reached by unwrapping.\<close>

fun errors_Is :: "error \<Rightarrow> error \<Rightarrow> bool" where
  "errors_Is (Errorf m inner) target = (Errorf m inner = target \<or> errors_Is inner target)"
| "errors_Is e target = (e = target)"

text \<open>What a Go panic in the modelled code can be.\<close>

datatype panic =
    NilPointerDereference
  | IndexOutOfRange
  | MustPanic error

section \<open>Values of type float64\<close>

text \<open>
  A \<^verbatim>\<open>float64\<close> is a NaN, an infinity with its sign, or a finite number with a sign, a
  mantissa \<open>m\<close> and an exponent \<open>e\<close>, which stands for \<open>m * 2^e\<close> or its negative.
  The numbers of the IEEE 754 binary64 format are those with \<open>m < 2^53\<close> and
  \<open>-1074 \<le> e \<le> 971\<close>, written with the least exponent possible.
\<close>

datatype float64 = NaN | Inf bool | Fin bool nat int

definition valof :: "float64 \<Rightarrow> real" where
  "valof x = (case x of Fin s m e \<Rightarrow> (if s then - 1 else 1) * real m * 2 powi e | _ \<Rightarrow> 0)"

text \<open>The fraction \<open>N / D\<close> rounded to the nearest integer, a tie to the even one.\<close>

definition round_nearest_even :: "nat \<Rightarrow> nat \<Rightarrow> nat" where
  "round_nearest_even N D =
     (let q = N div D; r = N mod D
      in if D < 2 * r \<or> (2 * r = D \<and> odd q) then q + 1 else q)"

text \<open>Numerator and denominator of \<open>(n / d) / 2^t\<close>.\<close>

definition scaled :: "nat \<Rightarrow> nat \<Rightarrow> int \<Rightarrow> nat \<times> nat" where
  "scaled n d t = (if 0 \<le> t then (n, d * 2 ^ nat t) else (n * 2 ^ nat (- t), d))"

text \<open>
  The \<^verbatim>\<open>float64\<close> nearest to the fraction \<open>n / d\<close>, with the sign \<open>s\<close>: the exponent
  is chosen so that the mantissa has 53 bits, but is not below \<open>-1074\<close>; the mantissa
  is rounded to nearest, ties to even; a result beyond the largest exponent is an
  infinity.
\<close>

definition round_rat :: "bool \<Rightarrow> nat \<Rightarrow> nat \<Rightarrow> float64" where
  "round_rat s n d =
     (if n = 0 then Fin s 0 (- 1074)
      else
        let t1 = max (bitlen (int n) - bitlen (int d) - 53) (- 1074);
            t = (case scaled n d t1 of (N, D) \<Rightarrow> if 2 ^ 53 \<le> N div D then t1 + 1 else t1);
            m = (case scaled n d t of (N, D) \<Rightarrow> round_nearest_even N D)
        in if m = 2 ^ 53 then (if 971 < t + 1 then Inf s else Fin s (2 ^ 52) (t + 1))
           else if 971 < t then Inf s else Fin s m t)"

text \<open>Go's \<^verbatim>\<open>*\<close> on \<^verbatim>\<open>float64\<close>: the exact product, rounded.\<close>

fun fmul :: "float64 \<Rightarrow> float64 \<Rightarrow> float64" where
  "fmul NaN y = NaN"
| "fmul x NaN = NaN"
| "fmul (Inf s) (Inf t) = Inf (s \<noteq> t)"
| "fmul (Inf s) (Fin t k f) = (if k = 0 then NaN else Inf (s \<noteq> t))"
| "fmul (Fin s m e) (Inf t) = (if m = 0 then NaN else Inf (s \<noteq> t))"
| "fmul (Fin s m e) (Fin t k f) =
     (if 0 \<le> e + f then round_rat (s \<noteq> t) (m * k * 2 ^ nat (e + f)) 1
      else round_rat (s \<noteq> t) (m * k) (2 ^ nat (- (e + f))))"

text \<open>The conversion of a natural number, as of the constants \<^verbatim>\<open>10\<close> and \<^verbatim>\<open>42\<close>.\<close>

definition float64_of_nat :: "nat \<Rightarrow> float64" where
  "float64_of_nat n = round_rat False n 1"

text \<open>
  \<^verbatim>\<open>math.Pow\<close> of the standard library, for a base that is a positive whole number and
  an exponent that is a whole number, as in the call \<^verbatim>\<open>math.Pow(10, -8)\<close>: the power,
  rounded once.  For 10 and -8 the library computes \<open>10^8\<close> exactly and divides 1 by
  it, which is this rounding.
\<close>

definition math_Pow :: "nat \<Rightarrow> int \<Rightarrow> float64" where
  "math_Pow x y =
     (if 0 \<le> y then round_rat False (x ^ nat y) 1 else round_rat False 1 (x ^ nat (- y)))"

section \<open>The metrics library\<close>

text \<open>
  The parts of \<^verbatim>\<open>prometheus/client_golang\<close> that \<^verbatim>\<open>adfs.go\<close> calls.
\<close>

datatype ValueType = CounterValue | GaugeValue | UntypedValue

record Desc =
  fqName :: string
  help_str :: string
  variableLabels :: "string list"
  constLabels :: "(string \<times> string) list"
  err :: "error option"

record Metric =
  desc :: Desc
  valType :: ValueType
  val :: float64

definition is_letter :: "char \<Rightarrow> bool" where
  "is_letter ch = (let n = (of_char ch :: nat) in (97 \<le> n \<and> n \<le> 122) \<or> (65 \<le> n \<and> n \<le> 90))"

definition is_digit :: "char \<Rightarrow> bool" where
  "is_digit ch = (let n = (of_char ch :: nat) in 48 \<le> n \<and> n \<le> 57)"

text \<open>The legacy metric-name grammar \<^verbatim>\<open>[a-zA-Z_:][a-zA-Z0-9_:]*\<close>.\<close>

fun IsValidMetricName :: "string \<Rightarrow> bool" where
  "IsValidMetricName [] = False"
| "IsValidMetricName (ch # rest) =
     ((is_letter ch \<or> ch = CHR ''_'' \<or> ch = CHR '':'') \<and>
      list_all (\<lambda>x. is_letter x \<or> is_digit x \<or> x = CHR ''_'' \<or> x = CHR '':'') rest)"

text \<open>\<^verbatim>\<open>strings.Join(parts, "_")\<close> on the non-empty parts, as \<^verbatim>\<open>BuildFQName\<close> does.\<close>

definition BuildFQName :: "string \<Rightarrow> string \<Rightarrow> string \<Rightarrow> string" where
  "BuildFQName namespace subsystem name =
     (if name = [] then []
      else if namespace \<noteq> [] \<and> subsystem \<noteq> [] then namespace @ ''_'' @ subsystem @ ''_'' @ name
      else if namespace \<noteq> [] then namespace @ ''_'' @ name
      else if subsystem \<noteq> [] then subsystem @ ''_'' @ name
      else name)"

text \<open>
  \<^verbatim>\<open>NewDesc\<close> never fails; an invalid name is stored in the descriptor's \<open>err\<close> and
  reported when a metric is made from it.  Every call in \<^verbatim>\<open>Build\<close> passes \<^verbatim>\<open>nil\<close> for
  both label arguments, so the validation of label names has nothing to check.
\<close>

definition NewDesc :: "string \<Rightarrow> string \<Rightarrow> string list \<Rightarrow> (string \<times> string) list \<Rightarrow> Desc" where
  "NewDesc fq h vl cl =
     \<lparr>fqName = fq, help_str = h, variableLabels = vl, constLabels = cl,
      err = (if IsValidMetricName fq then None else Some (InvalidMetricName fq))\<rparr>"

text \<open>
  \<^verbatim>\<open>MustNewConstMetric\<close> panics where \<^verbatim>\<open>NewConstMetric\<close> returns an error, and
  dereferences the descriptor pointer first.
\<close>

definition MustNewConstMetric :: "Desc option \<Rightarrow> ValueType \<Rightarrow> float64 \<Rightarrow> string list \<Rightarrow> panic + Metric" where
  "MustNewConstMetric d vt v labelValues =
     (case d of
        None \<Rightarrow> Inl NilPointerDereference
      | Some de \<Rightarrow>
          (case err de of
             Some e \<Rightarrow> Inl (MustPanic e)
           | None \<Rightarrow>
               if length labelValues \<noteq> length (variableLabels de)
               then Inl (MustPanic InconsistentCardinality)
               else Inr \<lparr>desc = de, valType = vt, val = v\<rparr>))"

section \<open>The acquisition layer as seen from the collector\<close>

text \<open>
  Modelled from the spec: the type \<^verbatim>\<open>pdh.Collector\<close> is absent from the sources.  The
  specification gives a typed collector one query handle, opened once and released
  once, and a cache of the last buffer size that decoded successfully.
\<close>

record pdh_Collector =
  object :: string
  handle :: nat
  is_open :: bool
  lastSize :: nat

text \<open>
  Modelled from the spec: the constant \<^verbatim>\<open>pdh.CounterTypeRaw\<close> is absent from the sources;
  the specification knows raw and formatted counter values.
\<close>

datatype CounterType = CounterTypeRaw | CounterTypeFormatted

text \<open>
  The declaration of \<^verbatim>\<open>perfDataCounterValues\<close> is absent from the sources.  Its fields
  are taken from their uses in \<^verbatim>\<open>Collect\<close>, where each is passed as, or multiplied into,
  a \<^verbatim>\<open>float64\<close>.
\<close>

record perfDataCounterValues =
  AdLoginConnectionFailures :: float64
  CertificateAuthentications :: float64
  DeviceAuthentications :: float64
  ExtranetAccountLockouts :: float64
  FederatedAuthentications :: float64
  PassportAuthentications :: float64
  PassiveRequests :: float64
  PasswordChangeFailed :: float64
  PasswordChangeSucceeded :: float64
  TokenRequests :: float64
  WindowsIntegratedAuthentications :: float64
  OAuthAuthZRequests :: float64
  OAuthClientAuthentications :: float64
  OAuthClientAuthenticationFailures :: float64
  OAuthClientCredentialRequestFailures :: float64
  OAuthClientCredentialRequests :: float64
  OAuthClientPrivateKeyJWTAuthenticationFailures :: float64
  OAuthClientPrivateKeyJWTAuthentications :: float64
  OAuthClientBasicAuthenticationFailures :: float64
  OAuthClientBasicAuthentications :: float64
  OAuthClientSecretPostAuthenticationFailures :: float64
  OAuthClientSecretPostAuthentications :: float64
  OAuthClientWindowsAuthenticationFailures :: float64
  OAuthClientWindowsAuthentications :: float64
  OAuthLogonCertRequestFailures :: float64
  OAuthLogonCertTokenRequests :: float64
  OAuthPasswordGrantRequestFailures :: float64
  OAuthPasswordGrantRequests :: float64
  OAuthTokenRequests :: float64
  SamlPTokenRequests :: float64
  SsoAuthenticationFailures :: float64
  SsoAuthentications :: float64
  WsFedTokenRequests :: float64
  WsTrustTokenRequests :: float64
  UsernamePasswordAuthenticationFailures :: float64
  UsernamePasswordAuthentications :: float64
  ExternalAuthNFailures :: float64
  ExternalAuthentications :: float64
  ArtifactDBFailures :: float64
  AvgArtifactDBQueryTime :: float64
  ConfigDBFailures :: float64
  AvgConfigDBQueryTime :: float64
  FederationMetadataRequests :: float64

section \<open>The AD FS collector\<close>

definition Name :: string where
  "Name = ''adfs''"

text \<open>
  Modelled from the spec: the constant \<^verbatim>\<open>types.Namespace\<close> is absent from the sources;
  the specification's scenario names the metric \<^verbatim>\<open>windows_adfs_passive_requests_total\<close>.
\<close>

definition Namespace :: string where
  "Namespace = ''windows''"

datatype Config = Config

definition ConfigDefaults :: Config where
  "ConfigDefaults = Config"

record Collector =
  config :: Config
  perfDataCollector :: "pdh_Collector option"
  perfDataObject :: "perfDataCounterValues list"
  adLoginConnectionFailures :: "Desc option"
  artifactDBFailures :: "Desc option"
  avgArtifactDBQueryTime :: "Desc option"
  avgConfigDBQueryTime :: "Desc option"
  certificateAuthentications :: "Desc option"
  configDBFailures :: "Desc option"
  deviceAuthentications :: "Desc option"
  externalAuthenticationFailures :: "Desc option"
  externalAuthentications :: "Desc option"
  extranetAccountLockouts :: "Desc option"
  federatedAuthentications :: "Desc option"
  federationMetadataRequests :: "Desc option"
  oAuthAuthZRequests :: "Desc option"
  oAuthClientAuthentications :: "Desc option"
  oAuthClientAuthenticationsFailures :: "Desc option"
  oAuthClientCredentialsRequestFailures :: "Desc option"
  oAuthClientCredentialsRequests :: "Desc option"
  oAuthClientPrivateKeyJwtAuthenticationFailures :: "Desc option"
  oAuthClientPrivateKeyJwtAuthentications :: "Desc option"
  oAuthClientSecretBasicAuthenticationFailures :: "Desc option"
  oAuthClientSecretBasicAuthentications :: "Desc option"
  oAuthClientSecretPostAuthenticationFailures :: "Desc option"
  oAuthClientSecretPostAuthentications :: "Desc option"
  oAuthClientWindowsIntegratedAuthenticationFailures :: "Desc option"
  oAuthClientWindowsIntegratedAuthentications :: "Desc option"
  oAuthLogonCertificateRequestFailures :: "Desc option"
  oAuthLogonCertificateTokenRequests :: "Desc option"
  oAuthPasswordGrantRequestFailures :: "Desc option"
  oAuthPasswordGrantRequests :: "Desc option"
  oAuthTokenRequests :: "Desc option"
  passiveRequests :: "Desc option"
  passportAuthentications :: "Desc option"
  passwordChangeFailed :: "Desc option"
  passwordChangeSucceeded :: "Desc option"
  samlPTokenRequests :: "Desc option"
  ssoAuthenticationFailures :: "Desc option"
  ssoAuthentications :: "Desc option"
  tokenRequests :: "Desc option"
  upAuthenticationFailures :: "Desc option"
  upAuthentications :: "Desc option"
  windowsIntegratedAuthentications :: "Desc option"
  wsFedTokenRequests :: "Desc option"
  wsTrustTokenRequests :: "Desc option"

text \<open>
  \<^verbatim>\<open>New\<close>: a \<^verbatim>\<open>nil\<close> configuration is replaced by the defaults; every other field
  has Go's zero value.
\<close>

definition New :: "Config option \<Rightarrow> Collector" where
  "New cfg =
    \<lparr>config = (case cfg of None \<Rightarrow> ConfigDefaults | Some c \<Rightarrow> c),
     perfDataCollector = None,
     perfDataObject = [],
     adLoginConnectionFailures = None,
     artifactDBFailures = None,
     avgArtifactDBQueryTime = None,
     avgConfigDBQueryTime = None,
     certificateAuthentications = None,
     configDBFailures = None,
     deviceAuthentications = None,
     externalAuthenticationFailures = None,
     externalAuthentications = None,
     extranetAccountLockouts = None,
     federatedAuthentications = None,
     federationMetadataRequests = None,
     oAuthAuthZRequests = None,
     oAuthClientAuthentications = None,
     oAuthClientAuthenticationsFailures = None,
     oAuthClientCredentialsRequestFailures = None,
     oAuthClientCredentialsRequests = None,
     oAuthClientPrivateKeyJwtAuthenticationFailures = None,
     oAuthClientPrivateKeyJwtAuthentications = None,
     oAuthClientSecretBasicAuthenticationFailures = None,
     oAuthClientSecretBasicAuthentications = None,
     oAuthClientSecretPostAuthenticationFailures = None,
     oAuthClientSecretPostAuthentications = None,
     oAuthClientWindowsIntegratedAuthenticationFailures = None,
     oAuthClientWindowsIntegratedAuthentications = None,
     oAuthLogonCertificateRequestFailures = None,
     oAuthLogonCertificateTokenRequests = None,
     oAuthPasswordGrantRequestFailures = None,
     oAuthPasswordGrantRequests = None,
     oAuthTokenRequests = None,
     passiveRequests = None,
     passportAuthentications = None,
     passwordChangeFailed = None,
     passwordChangeSucceeded = None,
     samlPTokenRequests = None,
     ssoAuthenticationFailures = None,
     ssoAuthentications = None,
     tokenRequests = None,
     upAuthenticationFailures = None,
     upAuthentications = None,
     windowsIntegratedAuthentications = None,
     wsFedTokenRequests = None,
     wsTrustTokenRequests = None\<rparr>"

text \<open>
  \<^verbatim>\<open>Build\<close> assigns the 43 descriptors and then asks the acquisition layer for a
  collector of the object \<^verbatim>\<open>"AD FS"\<close>.  The call \<^verbatim>\<open>pdh.NewCollector\<close> is a parameter:
  it answers with the pointer and the error that Go assigns together.
\<close>

type_synonym new_collector =
  "CounterType \<Rightarrow> string \<Rightarrow> string list option \<Rightarrow> pdh_Collector option \<times> error option"

definition Build_descs :: "Collector \<Rightarrow> Collector" where
  "Build_descs c = c
     \<lparr>
       adLoginConnectionFailures := Some (NewDesc (BuildFQName Namespace Name ''ad_login_connection_failures_total'')
         ''Total number of connection failures to an Active Directory domain controller'' [] []),
       certificateAuthentications := Some (NewDesc (BuildFQName Namespace Name ''certificate_authentications_total'')
         ''Total number of User Certificate authentications'' [] []),
       deviceAuthentications := Some (NewDesc (BuildFQName Namespace Name ''device_authentications_total'')
         ''Total number of Device authentications'' [] []),
       extranetAccountLockouts := Some (NewDesc (BuildFQName Namespace Name ''extranet_account_lockouts_total'')
         ''Total number of Extranet Account Lockouts'' [] []),
       federatedAuthentications := Some (NewDesc (BuildFQName Namespace Name ''federated_authentications_total'')
         ''Total number of authentications from a federated source'' [] []),
       passportAuthentications := Some (NewDesc (BuildFQName Namespace Name ''passport_authentications_total'')
         ''Total number of Microsoft Passport SSO authentications'' [] []),
       passiveRequests := Some (NewDesc (BuildFQName Namespace Name ''passive_requests_total'')
         ''Total number of passive (browser-based) requests'' [] []),
       passwordChangeFailed := Some (NewDesc (BuildFQName Namespace Name ''password_change_failed_total'')
         ''Total number of failed password changes'' [] []),
       passwordChangeSucceeded := Some (NewDesc (BuildFQName Namespace Name ''password_change_succeeded_total'')
         ''Total number of successful password changes'' [] []),
       tokenRequests := Some (NewDesc (BuildFQName Namespace Name ''token_requests_total'')
         ''Total number of token requests'' [] []),
       windowsIntegratedAuthentications := Some (NewDesc (BuildFQName Namespace Name ''windows_integrated_authentications_total'')
         ''Total number of Windows integrated authentications (Kerberos/NTLM)'' [] []),
       oAuthAuthZRequests := Some (NewDesc (BuildFQName Namespace Name ''oauth_authorization_requests_total'')
         ''Total number of incoming requests to the OAuth Authorization endpoint'' [] []),
       oAuthClientAuthentications := Some (NewDesc (BuildFQName Namespace Name ''oauth_client_authentication_success_total'')
         ''Total number of successful OAuth client Authentications'' [] []),
       oAuthClientAuthenticationsFailures := Some (NewDesc (BuildFQName Namespace Name ''oauth_client_authentication_failure_total'')
         ''Total number of failed OAuth client Authentications'' [] []),
       oAuthClientCredentialsRequestFailures := Some (NewDesc (BuildFQName Namespace Name ''oauth_client_credentials_failure_total'')
         ''Total number of failed OAuth Client Credentials Requests'' [] []),
       oAuthClientCredentialsRequests := Some (NewDesc (BuildFQName Namespace Name ''oauth_client_credentials_success_total'')
         ''Total number of successful RP tokens issued for OAuth Client Credentials Requests'' [] []),
       oAuthClientPrivateKeyJwtAuthenticationFailures := Some (NewDesc (BuildFQName Namespace Name ''oauth_client_privkey_jwt_authentication_failure_total'')
         ''Total number of failed OAuth Client Private Key Jwt Authentications'' [] []),
       oAuthClientPrivateKeyJwtAuthentications := Some (NewDesc (BuildFQName Namespace Name ''oauth_client_privkey_jwt_authentications_success_total'')
         ''Total number of successful OAuth Client Private Key Jwt Authentications'' [] []),
       oAuthClientSecretBasicAuthenticationFailures := Some (NewDesc (BuildFQName Namespace Name ''oauth_client_secret_basic_authentications_failure_total'')
         ''Total number of failed OAuth Client Secret Basic Authentications'' [] []),
       oAuthClientSecretBasicAuthentications := Some (NewDesc (BuildFQName Namespace Name ''oauth_client_secret_basic_authentications_success_total'')
         ''Total number of successful OAuth Client Secret Basic Authentications'' [] []),
       oAuthClientSecretPostAuthenticationFailures := Some (NewDesc (BuildFQName Namespace Name ''oauth_client_secret_post_authentications_failure_total'')
         ''Total number of failed OAuth Client Secret Post Authentications'' [] []),
       oAuthClientSecretPostAuthentications := Some (NewDesc (BuildFQName Namespace Name ''oauth_client_secret_post_authentications_success_total'')
         ''Total number of successful OAuth Client Secret Post Authentications'' [] []),
       oAuthClientWindowsIntegratedAuthenticationFailures := Some (NewDesc (BuildFQName Namespace Name ''oauth_client_windows_authentications_failure_total'')
         ''Total number of failed OAuth Client Windows Integrated Authentications'' [] []),
       oAuthClientWindowsIntegratedAuthentications := Some (NewDesc (BuildFQName Namespace Name ''oauth_client_windows_authentications_success_total'')
         ''Total number of successful OAuth Client Windows Integrated Authentications'' [] []),
       oAuthLogonCertificateRequestFailures := Some (NewDesc (BuildFQName Namespace Name ''oauth_logon_certificate_requests_failure_total'')
         ''Total number of failed OAuth Logon Certificate Requests'' [] []),
       oAuthLogonCertificateTokenRequests := Some (NewDesc (BuildFQName Namespace Name ''oauth_logon_certificate_token_requests_success_total'')
         ''Total number of successful RP tokens issued for OAuth Logon Certificate Requests'' [] []),
       oAuthPasswordGrantRequestFailures := Some (NewDesc (BuildFQName Namespace Name ''oauth_password_grant_requests_failure_total'')
         ''Total number of failed OAuth Password Grant Requests'' [] []),
       oAuthPasswordGrantRequests := Some (NewDesc (BuildFQName Namespace Name ''oauth_password_grant_requests_success_total'')
         ''Total number of successful OAuth Password Grant Requests'' [] []),
       oAuthTokenRequests := Some (NewDesc (BuildFQName Namespace Name ''oauth_token_requests_success_total'')
         ''Total number of successful RP tokens issued over OAuth protocol'' [] []),
       samlPTokenRequests := Some (NewDesc (BuildFQName Namespace Name ''samlp_token_requests_success_total'')
         ''Total number of successful RP tokens issued over SAML-P protocol'' [] []),
       ssoAuthenticationFailures := Some (NewDesc (BuildFQName Namespace Name ''sso_authentications_failure_total'')
         ''Total number of failed SSO authentications'' [] []),
       ssoAuthentications := Some (NewDesc (BuildFQName Namespace Name ''sso_authentications_success_total'')
         ''Total number of successful SSO authentications'' [] []),
       wsFedTokenRequests := Some (NewDesc (BuildFQName Namespace Name ''wsfed_token_requests_success_total'')
         ''Total number of successful RP tokens issued over WS-Fed protocol'' [] []),
       wsTrustTokenRequests := Some (NewDesc (BuildFQName Namespace Name ''wstrust_token_requests_success_total'')
         ''Total number of successful RP tokens issued over WS-Trust protocol'' [] []),
       upAuthenticationFailures := Some (NewDesc (BuildFQName Namespace Name ''userpassword_authentications_failure_total'')
         ''Total number of failed AD U/P authentications'' [] []),
       upAuthentications := Some (NewDesc (BuildFQName Namespace Name ''userpassword_authentications_success_total'')
         ''Total number of successful AD U/P authentications'' [] []),
       externalAuthenticationFailures := Some (NewDesc (BuildFQName Namespace Name ''external_authentications_failure_total'')
         ''Total number of failed authentications from external MFA providers'' [] []),
       externalAuthentications := Some (NewDesc (BuildFQName Namespace Name ''external_authentications_success_total'')
         ''Total number of successful authentications from external MFA providers'' [] []),
       artifactDBFailures := Some (NewDesc (BuildFQName Namespace Name ''db_artifact_failure_total'')
         ''Total number of failures connecting to the artifact database'' [] []),
       avgArtifactDBQueryTime := Some (NewDesc (BuildFQName Namespace Name ''db_artifact_query_time_seconds_total'')
         ''Accumulator of time taken for an artifact database query'' [] []),
       configDBFailures := Some (NewDesc (BuildFQName Namespace Name ''db_config_failure_total'')
         ''Total number of failures connecting to the configuration database'' [] []),
       avgConfigDBQueryTime := Some (NewDesc (BuildFQName Namespace Name ''db_config_query_time_seconds_total'')
         ''Accumulator of time taken for a configuration database query'' [] []),
       federationMetadataRequests := Some (NewDesc (BuildFQName Namespace Name ''federation_metadata_requests_total'')
         ''Total number of Federation Metadata requests'' [] [])
     \<rparr>"

definition Build :: "new_collector \<Rightarrow> Collector \<Rightarrow> Collector \<times> error option" where
  "Build NewCollector c =
     (let c1 = Build_descs c;
          (p, e) = NewCollector CounterTypeRaw ''AD FS'' None;
          c2 = c1\<lparr>perfDataCollector := p\<rparr>
      in case e of
           Some er \<Rightarrow> (c2, Some (Errorf ''failed to create AD FS collector'' er))
         | None \<Rightarrow> (c2, None))"

text \<open>The 43 descriptor fields, in the order in which \<^verbatim>\<open>Collect\<close> uses them.\<close>

definition descs :: "Collector \<Rightarrow> Desc option list" where
  "descs c =
    [
     adLoginConnectionFailures c,
     certificateAuthentications c,
     deviceAuthentications c,
     extranetAccountLockouts c,
     federatedAuthentications c,
     passportAuthentications c,
     passiveRequests c,
     passwordChangeFailed c,
     passwordChangeSucceeded c,
     tokenRequests c,
     windowsIntegratedAuthentications c,
     oAuthAuthZRequests c,
     oAuthClientAuthentications c,
     oAuthClientAuthenticationsFailures c,
     oAuthClientCredentialsRequestFailures c,
     oAuthClientCredentialsRequests c,
     oAuthClientPrivateKeyJwtAuthenticationFailures c,
     oAuthClientPrivateKeyJwtAuthentications c,
     oAuthClientSecretBasicAuthenticationFailures c,
     oAuthClientSecretBasicAuthentications c,
     oAuthClientSecretPostAuthenticationFailures c,
     oAuthClientSecretPostAuthentications c,
     oAuthClientWindowsIntegratedAuthenticationFailures c,
     oAuthClientWindowsIntegratedAuthentications c,
     oAuthLogonCertificateRequestFailures c,
     oAuthLogonCertificateTokenRequests c,
     oAuthPasswordGrantRequestFailures c,
     oAuthPasswordGrantRequests c,
     oAuthTokenRequests c,
     samlPTokenRequests c,
     ssoAuthenticationFailures c,
     ssoAuthentications c,
     wsFedTokenRequests c,
     wsTrustTokenRequests c,
     upAuthenticationFailures c,
     upAuthentications c,
     externalAuthenticationFailures c,
     externalAuthentications c,
     artifactDBFailures c,
     avgArtifactDBQueryTime c,
     configDBFailures c,
     avgConfigDBQueryTime c,
     federationMetadataRequests c
    ]"

text \<open>A collector whose descriptors are the ones that \<^verbatim>\<open>Build\<close> assigns.\<close>

definition descs_built :: "Collector \<Rightarrow> bool" where
  "descs_built c = (descs c = descs (Build_descs c))"

text \<open>
  The acquisition call \<^verbatim>\<open>c.perfDataCollector.Collect(&c.perfDataObject)\<close> is a
  parameter: from the receiver and the slice it is given, it answers with the receiver
  afterwards, the slice afterwards and the error it returns.
\<close>

type_synonym pdh_collect =
  "pdh_Collector option \<Rightarrow> perfDataCounterValues list \<Rightarrow>
     pdh_Collector option \<times> perfDataCounterValues list \<times> error option"

text \<open>
  What a call of \<^verbatim>\<open>Collect\<close> leaves behind: the collector, the channel's contents
  and either a panic or the returned error (\<open>None\<close> for \<^verbatim>\<open>nil\<close>).
\<close>

record collect_result =
  self :: Collector
  chan :: "Metric list"
  ret :: "panic + error option"

text \<open>\<^verbatim>\<open>xs[0]\<close> panics on an empty slice.\<close>

definition index0 :: "'a list \<Rightarrow> panic + 'a" where
  "index0 xs = (case xs of [] \<Rightarrow> Inl IndexOutOfRange | x # _ \<Rightarrow> Inr x)"

text \<open>
  The arguments of the 43 statements \<^verbatim>\<open>ch <- prometheus.MustNewConstMetric(...)\<close>, in
  source order, with \<open>r\<close> for \<^verbatim>\<open>c.perfDataObject[0]\<close>.
\<close>

definition emissions :: "Collector \<Rightarrow> perfDataCounterValues \<Rightarrow> (Desc option \<times> ValueType \<times> float64) list" where
  "emissions c r =
    [
     (adLoginConnectionFailures c, CounterValue, AdLoginConnectionFailures r),
     (certificateAuthentications c, CounterValue, CertificateAuthentications r),
     (deviceAuthentications c, CounterValue, DeviceAuthentications r),
     (extranetAccountLockouts c, CounterValue, ExtranetAccountLockouts r),
     (federatedAuthentications c, CounterValue, FederatedAuthentications r),
     (passportAuthentications c, CounterValue, PassportAuthentications r),
     (passiveRequests c, CounterValue, PassiveRequests r),
     (passwordChangeFailed c, CounterValue, PasswordChangeFailed r),
     (passwordChangeSucceeded c, CounterValue, PasswordChangeSucceeded r),
     (tokenRequests c, CounterValue, TokenRequests r),
     (windowsIntegratedAuthentications c, CounterValue, WindowsIntegratedAuthentications r),
     (oAuthAuthZRequests c, CounterValue, OAuthAuthZRequests r),
     (oAuthClientAuthentications c, CounterValue, OAuthClientAuthentications r),
     (oAuthClientAuthenticationsFailures c, CounterValue, OAuthClientAuthenticationFailures r),
     (oAuthClientCredentialsRequestFailures c, CounterValue, OAuthClientCredentialRequestFailures r),
     (oAuthClientCredentialsRequests c, CounterValue, OAuthClientCredentialRequests r),
     (oAuthClientPrivateKeyJwtAuthenticationFailures c, CounterValue, OAuthClientPrivateKeyJWTAuthenticationFailures r),
     (oAuthClientPrivateKeyJwtAuthentications c, CounterValue, OAuthClientPrivateKeyJWTAuthentications r),
     (oAuthClientSecretBasicAuthenticationFailures c, CounterValue, OAuthClientBasicAuthenticationFailures r),
     (oAuthClientSecretBasicAuthentications c, CounterValue, OAuthClientBasicAuthentications r),
     (oAuthClientSecretPostAuthenticationFailures c, CounterValue, OAuthClientSecretPostAuthenticationFailures r),
     (oAuthClientSecretPostAuthentications c, CounterValue, OAuthClientSecretPostAuthentications r),
     (oAuthClientWindowsIntegratedAuthenticationFailures c, CounterValue, OAuthClientWindowsAuthenticationFailures r),
     (oAuthClientWindowsIntegratedAuthentications c, CounterValue, OAuthClientWindowsAuthentications r),
     (oAuthLogonCertificateRequestFailures c, CounterValue, OAuthLogonCertRequestFailures r),
     (oAuthLogonCertificateTokenRequests c, CounterValue, OAuthLogonCertTokenRequests r),
     (oAuthPasswordGrantRequestFailures c, CounterValue, OAuthPasswordGrantRequestFailures r),
     (oAuthPasswordGrantRequests c, CounterValue, OAuthPasswordGrantRequests r),
     (oAuthTokenRequests c, CounterValue, OAuthTokenRequests r),
     (samlPTokenRequests c, CounterValue, SamlPTokenRequests r),
     (ssoAuthenticationFailures c, CounterValue, SsoAuthenticationFailures r),
     (ssoAuthentications c, CounterValue, SsoAuthentications r),
     (wsFedTokenRequests c, CounterValue, WsFedTokenRequests r),
     (wsTrustTokenRequests c, CounterValue, WsTrustTokenRequests r),
     (upAuthenticationFailures c, CounterValue, UsernamePasswordAuthenticationFailures r),
     (upAuthentications c, CounterValue, UsernamePasswordAuthentications r),
     (externalAuthenticationFailures c, CounterValue, ExternalAuthNFailures r),
     (externalAuthentications c, CounterValue, ExternalAuthentications r),
     (artifactDBFailures c, CounterValue, ArtifactDBFailures r),
     (avgArtifactDBQueryTime c, CounterValue, fmul (AvgArtifactDBQueryTime r) (math_Pow 10 (- 8))),
     (configDBFailures c, CounterValue, ConfigDBFailures r),
     (avgConfigDBQueryTime c, CounterValue, fmul (AvgConfigDBQueryTime r) (math_Pow 10 (- 8))),
     (federationMetadataRequests c, CounterValue, FederationMetadataRequests r)
    ]"

text \<open>Running the statements in order: a panic stops at what has been sent so far.\<close>

fun send_all :: "(Desc option \<times> ValueType \<times> float64) list \<Rightarrow> Metric list \<Rightarrow> Metric list \<times> panic option" where
  "send_all [] ch = (ch, None)"
| "send_all ((d, vt, v) # rest) ch =
     (case MustNewConstMetric d vt v [] of
        Inl pn \<Rightarrow> (ch, Some pn)
      | Inr m \<Rightarrow> send_all rest (ch @ [m]))"

definition Collect :: "pdh_collect \<Rightarrow> Collector \<Rightarrow> Metric list \<Rightarrow> collect_result" where
  "Collect pdhCollect c ch =
     (let (p, dst, e) = pdhCollect (perfDataCollector c) (perfDataObject c);
          c1 = c\<lparr>perfDataCollector := p, perfDataObject := dst\<rparr>
      in case e of
           Some er \<Rightarrow>
             \<lparr>self = c1, chan = ch,
              ret = Inr (Some (Errorf ''failed to collect ADFS metrics'' er))\<rparr>
         | None \<Rightarrow>
             if length (perfDataObject c1) = 0
             then \<lparr>self = c1, chan = ch,
                   ret = Inr (Some (Errorf ''failed to collect ADFS metrics'' ErrNoDataUnexpected))\<rparr>
             else (case index0 (perfDataObject c1) of
                     Inl pn \<Rightarrow> \<lparr>self = c1, chan = ch, ret = Inl pn\<rparr>
                   | Inr r \<Rightarrow>
                       (case send_all (emissions c1 r) ch of
                          (ch1, Some pn) \<Rightarrow> \<lparr>self = c1, chan = ch1, ret = Inl pn\<rparr>
                        | (ch1, None) \<Rightarrow> \<lparr>self = c1, chan = ch1, ret = Inr None\<rparr>)))"

text \<open>The metric made by one statement whose descriptor is set.\<close>

definition desc_ok :: "Desc option \<Rightarrow> bool" where
  "desc_ok d = (case d of None \<Rightarrow> False | Some de \<Rightarrow> err de = None \<and> variableLabels de = [])"

definition metric_of :: "Desc option \<times> ValueType \<times> float64 \<Rightarrow> Metric" where
  "metric_of e = (case e of (d, vt, v) \<Rightarrow> \<lparr>desc = the d, valType = vt, val = v\<rparr>)"

text \<open>The fully qualified names of the 43 metrics, in the order of emission.\<close>

definition metric_names :: "string list" where
  "metric_names =
    [
     ''windows_adfs_ad_login_connection_failures_total'',
     ''windows_adfs_certificate_authentications_total'',
     ''windows_adfs_device_authentications_total'',
     ''windows_adfs_extranet_account_lockouts_total'',
     ''windows_adfs_federated_authentications_total'',
     ''windows_adfs_passport_authentications_total'',
     ''windows_adfs_passive_requests_total'',
     ''windows_adfs_password_change_failed_total'',
     ''windows_adfs_password_change_succeeded_total'',
     ''windows_adfs_token_requests_total'',
     ''windows_adfs_windows_integrated_authentications_total'',
     ''windows_adfs_oauth_authorization_requests_total'',
     ''windows_adfs_oauth_client_authentication_success_total'',
     ''windows_adfs_oauth_client_authentication_failure_total'',
     ''windows_adfs_oauth_client_credentials_failure_total'',
     ''windows_adfs_oauth_client_credentials_success_total'',
     ''windows_adfs_oauth_client_privkey_jwt_authentication_failure_total'',
     ''windows_adfs_oauth_client_privkey_jwt_authentications_success_total'',
     ''windows_adfs_oauth_client_secret_basic_authentications_failure_total'',
     ''windows_adfs_oauth_client_secret_basic_authentications_success_total'',
     ''windows_adfs_oauth_client_secret_post_authentications_failure_total'',
     ''windows_adfs_oauth_client_secret_post_authentications_success_total'',
     ''windows_adfs_oauth_client_windows_authentications_failure_total'',
     ''windows_adfs_oauth_client_windows_authentications_success_total'',
     ''windows_adfs_oauth_logon_certificate_requests_failure_total'',
     ''windows_adfs_oauth_logon_certificate_token_requests_success_total'',
     ''windows_adfs_oauth_password_grant_requests_failure_total'',
     ''windows_adfs_oauth_password_grant_requests_success_total'',
     ''windows_adfs_oauth_token_requests_success_total'',
     ''windows_adfs_samlp_token_requests_success_total'',
     ''windows_adfs_sso_authentications_failure_total'',
     ''windows_adfs_sso_authentications_success_total'',
     ''windows_adfs_wsfed_token_requests_success_total'',
     ''windows_adfs_wstrust_token_requests_success_total'',
     ''windows_adfs_userpassword_authentications_failure_total'',
     ''windows_adfs_userpassword_authentications_success_total'',
     ''windows_adfs_external_authentications_failure_total'',
     ''windows_adfs_external_authentications_success_total'',
     ''windows_adfs_db_artifact_failure_total'',
     ''windows_adfs_db_artifact_query_time_seconds_total'',
     ''windows_adfs_db_config_failure_total'',
     ''windows_adfs_db_config_query_time_seconds_total'',
     ''windows_adfs_federation_metadata_requests_total''
    ]"


text \<open>
  The values that the 43 statements of \<^verbatim>\<open>Collect\<close> compute from the record \<open>r\<close>, in
  order.
\<close>

definition code_values :: "perfDataCounterValues \<Rightarrow> float64 list" where
  "code_values r =
    [
     AdLoginConnectionFailures r,
     CertificateAuthentications r,
     DeviceAuthentications r,
     ExtranetAccountLockouts r,
     FederatedAuthentications r,
     PassportAuthentications r,
     PassiveRequests r,
     PasswordChangeFailed r,
     PasswordChangeSucceeded r,
     TokenRequests r,
     WindowsIntegratedAuthentications r,
     OAuthAuthZRequests r,
     OAuthClientAuthentications r,
     OAuthClientAuthenticationFailures r,
     OAuthClientCredentialRequestFailures r,
     OAuthClientCredentialRequests r,
     OAuthClientPrivateKeyJWTAuthenticationFailures r,
     OAuthClientPrivateKeyJWTAuthentications r,
     OAuthClientBasicAuthenticationFailures r,
     OAuthClientBasicAuthentications r,
     OAuthClientSecretPostAuthenticationFailures r,
     OAuthClientSecretPostAuthentications r,
     OAuthClientWindowsAuthenticationFailures r,
     OAuthClientWindowsAuthentications r,
     OAuthLogonCertRequestFailures r,
     OAuthLogonCertTokenRequests r,
     OAuthPasswordGrantRequestFailures r,
     OAuthPasswordGrantRequests r,
     OAuthTokenRequests r,
     SamlPTokenRequests r,
     SsoAuthenticationFailures r,
     SsoAuthentications r,
     WsFedTokenRequests r,
     WsTrustTokenRequests r,
     UsernamePasswordAuthenticationFailures r,
     UsernamePasswordAuthentications r,
     ExternalAuthNFailures r,
     ExternalAuthentications r,
     ArtifactDBFailures r,
     fmul (AvgArtifactDBQueryTime r) (math_Pow 10 (- 8)),
     ConfigDBFailures r,
     fmul (AvgConfigDBQueryTime r) (math_Pow 10 (- 8)),
     FederationMetadataRequests r
    ]"

text \<open>Go's zero value of \<^verbatim>\<open>perfDataCounterValues\<close>.\<close>

definition zero_values :: perfDataCounterValues where
  "zero_values =
    \<lparr>
     AdLoginConnectionFailures = Fin False 0 (- 1074),
     CertificateAuthentications = Fin False 0 (- 1074),
     DeviceAuthentications = Fin False 0 (- 1074),
     ExtranetAccountLockouts = Fin False 0 (- 1074),
     FederatedAuthentications = Fin False 0 (- 1074),
     PassportAuthentications = Fin False 0 (- 1074),
     PassiveRequests = Fin False 0 (- 1074),
     PasswordChangeFailed = Fin False 0 (- 1074),
     PasswordChangeSucceeded = Fin False 0 (- 1074),
     TokenRequests = Fin False 0 (- 1074),
     WindowsIntegratedAuthentications = Fin False 0 (- 1074),
     OAuthAuthZRequests = Fin False 0 (- 1074),
     OAuthClientAuthentications = Fin False 0 (- 1074),
     OAuthClientAuthenticationFailures = Fin False 0 (- 1074),
     OAuthClientCredentialRequestFailures = Fin False 0 (- 1074),
     OAuthClientCredentialRequests = Fin False 0 (- 1074),
     OAuthClientPrivateKeyJWTAuthenticationFailures = Fin False 0 (- 1074),
     OAuthClientPrivateKeyJWTAuthentications = Fin False 0 (- 1074),
     OAuthClientBasicAuthenticationFailures = Fin False 0 (- 1074),
     OAuthClientBasicAuthentications = Fin False 0 (- 1074),
     OAuthClientSecretPostAuthenticationFailures = Fin False 0 (- 1074),
     OAuthClientSecretPostAuthentications = Fin False 0 (- 1074),
     OAuthClientWindowsAuthenticationFailures = Fin False 0 (- 1074),
     OAuthClientWindowsAuthentications = Fin False 0 (- 1074),
     OAuthLogonCertRequestFailures = Fin False 0 (- 1074),
     OAuthLogonCertTokenRequests = Fin False 0 (- 1074),
     OAuthPasswordGrantRequestFailures = Fin False 0 (- 1074),
     OAuthPasswordGrantRequests = Fin False 0 (- 1074),
     OAuthTokenRequests = Fin False 0 (- 1074),
     SamlPTokenRequests = Fin False 0 (- 1074),
     SsoAuthenticationFailures = Fin False 0 (- 1074),
     SsoAuthentications = Fin False 0 (- 1074),
     WsFedTokenRequests = Fin False 0 (- 1074),
     WsTrustTokenRequests = Fin False 0 (- 1074),
     UsernamePasswordAuthenticationFailures = Fin False 0 (- 1074),
     UsernamePasswordAuthentications = Fin False 0 (- 1074),
     ExternalAuthNFailures = Fin False 0 (- 1074),
     ExternalAuthentications = Fin False 0 (- 1074),
     ArtifactDBFailures = Fin False 0 (- 1074),
     AvgArtifactDBQueryTime = Fin False 0 (- 1074),
     ConfigDBFailures = Fin False 0 (- 1074),
     AvgConfigDBQueryTime = Fin False 0 (- 1074),
     FederationMetadataRequests = Fin False 0 (- 1074)
    \<rparr>"

section \<open>The acquisition layer, from the specification\<close>

text \<open>
  Modelled from the spec: \<^verbatim>\<open>pdh.NewCollector\<close> is absent from the sources.  Opening
  fails with \<open>CounterObjectUnavailable\<close> when the host has no performance object of
  that name; otherwise the collector owns the open query handle \<open>h\<close> and has no
  cached buffer size yet.
\<close>

definition pdh_NewCollector :: "string list \<Rightarrow> nat \<Rightarrow> new_collector" where
  "pdh_NewCollector available h ct obj instances =
     (if obj \<in> set available
      then (Some \<lparr>object = obj, handle = h, is_open = True, lastSize = 0\<rparr>, None)
      else (None, Some (Pdh CounterObjectUnavailable)))"

text \<open>
  Modelled from the spec: \<^verbatim>\<open>pdh.Collector.Close\<close> is absent from the sources.  Closing
  releases an open handle to the operating system, which logs it; closing an
  already-closed handle, or a collector that was never created, is a no-op.
\<close>

type_synonym pdh_close =
  "pdh_Collector option \<Rightarrow> nat list \<Rightarrow> panic + (pdh_Collector option \<times> nat list)"

definition pdh_Close :: pdh_close where
  "pdh_Close p released =
     (case p of
        None \<Rightarrow> Inr (None, released)
      | Some q \<Rightarrow>
          if is_open q then Inr (Some (q\<lparr>is_open := False\<rparr>), released @ [handle q])
          else Inr (Some q, released))"

text \<open>
  \<^verbatim>\<open>Close\<close> of the AD FS collector calls \<^verbatim>\<open>Close\<close> on its \<^verbatim>\<open>perfDataCollector\<close>
  pointer, whatever it is, and returns \<^verbatim>\<open>nil\<close>.  The call is a parameter; a panic in
  it is a panic of \<^verbatim>\<open>Close\<close>.
\<close>

definition Close :: "pdh_close \<Rightarrow> Collector \<Rightarrow> nat list \<Rightarrow> Collector \<times> nat list \<times> (panic + error option)" where
  "Close pdhClose c released =
     (case pdhClose (perfDataCollector c) released of
        Inl pn \<Rightarrow> (c, released, Inl pn)
      | Inr (p, released1) \<Rightarrow> (c\<lparr>perfDataCollector := p\<rparr>, released1, Inr None))"

text \<open>
  Modelled from the spec: the buffer negotiator is absent from the sources.  The
  operating system answers a decode request for a buffer size with the decoded data,
  with "buffer too small" and the size it requires, or with a failure.  It is a step
  function on a state of its own, so that its answers may change between requests.
\<close>

datatype 'raw os_reply = Decoded 'raw | TooSmall nat | OsFailure pdh_error

type_synonym ('s, 'raw) os_layer = "'s \<Rightarrow> nat \<Rightarrow> 'raw os_reply \<times> 's"

text \<open>
  The first request uses the cached size; on "too small" the buffer is reallocated to
  exactly the required size and the request repeated once; a second "too small" is a
  \<open>DecodeError\<close>.  The result carries the size to cache.
\<close>

definition negotiate :: "('s, 'raw) os_layer \<Rightarrow> 's \<Rightarrow> nat \<Rightarrow> (pdh_error + 'raw) \<times> nat \<times> 's" where
  "negotiate os s cached =
     (case os s cached of
        (Decoded raw, s1) \<Rightarrow> (Inr raw, cached, s1)
      | (OsFailure e, s1) \<Rightarrow> (Inl e, cached, s1)
      | (TooSmall required, s1) \<Rightarrow>
          (case os s1 required of
             (Decoded raw, s2) \<Rightarrow> (Inr raw, required, s2)
           | (OsFailure e, s2) \<Rightarrow> (Inl e, cached, s2)
           | (TooSmall again, s2) \<Rightarrow> (Inl DecodeError, cached, s2)))"

text \<open>An operating system that counts the decode requests it receives.\<close>

definition counting :: "('s, 'raw) os_layer \<Rightarrow> (nat \<times> 's, 'raw) os_layer" where
  "counting os = (\<lambda>(n, s) bufsize. case os s bufsize of (reply, s1) \<Rightarrow> (reply, (Suc n, s1)))"

text \<open>The synthetic operating system that answers "too small" to every request.\<close>

definition always_too_small :: "(unit, 'raw) os_layer" where
  "always_too_small = (\<lambda>s bufsize. (TooSmall (Suc bufsize), s))"

text \<open>
  Modelled from the spec: \<^verbatim>\<open>pdh.Collector.Collect\<close> is absent from the sources.  It
  discards the previous records, negotiates the buffer, decodes, and returns
  \<open>NoDataError\<close> when no record was produced.  The record decoder is a parameter.
  The specification leaves a call before \<^verbatim>\<open>Build\<close> undefined; here it is answered by
  a \<open>ConfigurationError\<close> without a request to the operating system.
\<close>

definition pdh_Collect ::
  "('s, 'raw) os_layer \<Rightarrow> ('raw \<Rightarrow> pdh_error + perfDataCounterValues list) \<Rightarrow> 's \<Rightarrow>
     pdh_Collector option \<Rightarrow> perfDataCounterValues list \<Rightarrow>
     (pdh_Collector option \<times> perfDataCounterValues list \<times> error option) \<times> 's" where
  "pdh_Collect os decode s p dst =
     (case p of
        None \<Rightarrow> ((None, [], Some (Pdh ConfigurationError)), s)
      | Some q \<Rightarrow>
          (case negotiate os s (lastSize q) of
             (Inl e, sz, s1) \<Rightarrow> ((Some q, [], Some (Pdh e)), s1)
           | (Inr raw, sz, s1) \<Rightarrow>
               (case decode raw of
                  Inl e \<Rightarrow> ((Some (q\<lparr>lastSize := sz\<rparr>), [], Some (Pdh e)), s1)
                | Inr [] \<Rightarrow> ((Some (q\<lparr>lastSize := sz\<rparr>), [], Some (Pdh NoDataError)), s1)
                | Inr (r # rs) \<Rightarrow> ((Some (q\<lparr>lastSize := sz\<rparr>), r # rs, None), s1))))"

section \<open>The scheduler, from the specification\<close>

text \<open>
  Modelled from the spec: the collector registry, the scheduler and the scrape
  aggregator are absent from the sources.  A registered collector has a name, an
  enabled flag and a lifecycle state; \<open>outcome\<close> is what its \<^verbatim>\<open>Collect\<close> does in the
  round at hand: it returns the metrics it wrote and its error, or it is still running
  at the deadline.
\<close>

datatype lifecycle = Unbuilt | Built | Closed

datatype 'm round_outcome = Finished "'m list" "error option" | StillRunning

record 'm registered =
  cname :: string
  enabled :: bool
  state :: lifecycle
  outcome :: "'m round_outcome"

datatype reason = Timeout | Reason error

datatype status = Success | Failure reason

record 'm ScrapeOutcome =
  perCollector :: "string \<rightharpoonup> status"
  stream :: "'m list"
  failedCollectors :: nat
  success :: bool

text \<open>
  One collector's round: its metrics join the stream only when it returned without an
  error; an error or a timeout is recorded for this round and counted.
\<close>

definition record_round :: "'m ScrapeOutcome \<Rightarrow> 'm registered \<Rightarrow> 'm ScrapeOutcome" where
  "record_round out c =
     (case outcome c of
        Finished ms None \<Rightarrow>
          out\<lparr>perCollector := (perCollector out)(cname c \<mapsto> Success), stream := stream out @ ms\<rparr>
      | Finished ms (Some e) \<Rightarrow>
          out\<lparr>perCollector := (perCollector out)(cname c \<mapsto> Failure (Reason e)),
              failedCollectors := Suc (failedCollectors out)\<rparr>
      | StillRunning \<Rightarrow>
          out\<lparr>perCollector := (perCollector out)(cname c \<mapsto> Failure Timeout),
              failedCollectors := Suc (failedCollectors out)\<rparr>)"

definition runnable :: "'m registered \<Rightarrow> bool" where
  "runnable c = (enabled c \<and> state c = Built)"

text \<open>
  A scrape round over the registry, in registration order.  The scrape is reported
  successful exactly when the infrastructure itself did not fail.
\<close>

definition scrape :: "bool \<Rightarrow> 'm registered list \<Rightarrow> 'm ScrapeOutcome" where
  "scrape infrastructure_ok cs =
     foldl record_round
       \<lparr>perCollector = Map.empty, stream = [], failedCollectors = 0, success = infrastructure_ok\<rparr>
       (filter runnable cs)"

text \<open>The metrics that a collector contributes to the merged stream.\<close>

definition contribution :: "'m registered \<Rightarrow> 'm list" where
  "contribution c = (case outcome c of Finished ms None \<Rightarrow> ms | _ \<Rightarrow> [])"

text \<open>What the round records for a collector.\<close>

definition status_of :: "'m registered \<Rightarrow> status" where
  "status_of c =
     (case outcome c of
        Finished ms None \<Rightarrow> Success
      | Finished ms (Some e) \<Rightarrow> Failure (Reason e)
      | StillRunning \<Rightarrow> Failure Timeout)"

text \<open>
  The isolation scenario of the specification: three collectors, of which the second
  fails in every round.
\<close>

definition three_collectors :: "string registered list" where
  "three_collectors =
    [\<lparr>cname = ''cpu'', enabled = True, state = Built,
      outcome = Finished [''windows_cpu_a'', ''windows_cpu_b''] None\<rparr>,
     \<lparr>cname = ''adfs'', enabled = True, state = Built,
      outcome = Finished [] (Some (Errorf ''failed to collect ADFS metrics'' ErrNoDataUnexpected))\<rparr>,
     \<lparr>cname = ''os'', enabled = True, state = Built,
      outcome = Finished [''windows_os_a''] None\<rparr>]"

text \<open>
  An operating system whose required size is 100: it answers "too small" to a smaller
  buffer and decodes into a buffer that is large enough.
\<close>

definition needs_100 :: "(unit, string) os_layer" where
  "needs_100 = (\<lambda>s bufsize. (if bufsize < 100 then TooSmall 100 else Decoded ''raw'', s))"

section \<open>Facts about float64 arithmetic\<close>




lemma powi_two_pos: "0 < (2::real) powi t"
  by (simp add: power_int_def)








lemma abs_valof_Fin: "\<bar>valof (Fin s m e)\<bar> = real m * 2 powi e"
  using powi_two_pos[of e] by (simp add: valof_def abs_mult)


lemmas float_eval = math_Pow_def round_rat_def scaled_def round_nearest_even_def Let_def
  float64_of_nat_def compute_bitlen








section \<open>Facts about the library model\<close>

lemma float64_of_nat_42: "float64_of_nat 42 = Fin False 5910974510923776 (- 47)"
  by (simp add: float_eval)

lemma valof_float64_of_nat_42: "valof (float64_of_nat 42) = 42"
  by (simp add: float64_of_nat_42 valof_def power_int_minus)




lemma errors_Is_refl: "errors_Is e e"
  by (cases e) simp_all

lemma errors_Is_Errorf: "errors_Is e t \<Longrightarrow> errors_Is (Errorf m e) t"
  by simp


lemma send_all_ok:
  "list_all (\<lambda>e. desc_ok (fst e)) es \<Longrightarrow> send_all es ch = (ch @ map metric_of es, None)"
proof (induction es arbitrary: ch)
  case Nil
  then show ?case by simp
next
  case (Cons e es)
  obtain d vt v where e: "e = (d, vt, v)" by (cases e)
  from Cons.prems e obtain de where d: "d = Some de" "err de = None" "variableLabels de = []"
    by (auto simp: desc_ok_def split: option.splits)
  from Cons.prems have "list_all (\<lambda>e. desc_ok (fst e)) es" by simp
  from Cons.IH[OF this] show ?case
    using e d by (simp add: MustNewConstMetric_def metric_of_def)
qed

section \<open>Facts about the descriptors\<close>

lemma map_fst_emissions: "map fst (emissions c r) = descs c"
  by (simp add: emissions_def descs_def)

lemma length_emissions: "length (emissions c r) = 43"
  by (simp add: emissions_def)

lemma emissions_update:
  "emissions (c\<lparr>perfDataCollector := p, perfDataObject := d\<rparr>) r = emissions c r"
  by (simp add: emissions_def)

lemma descs_update:
  "descs (c\<lparr>perfDataCollector := p, perfDataObject := d\<rparr>) = descs c"
  by (simp add: descs_def)

lemma descs_Build_descs_const: "descs (Build_descs c) = descs (Build_descs c0)"
  by (simp add: descs_def Build_descs_def)

lemma Build_descs_ok: "list_all desc_ok (descs (Build_descs c))"
  by (simp add: descs_def Build_descs_def desc_ok_def NewDesc_def BuildFQName_def
      Namespace_def Name_def is_letter_def is_digit_def)

lemma Build_descs_names: "map (\<lambda>d. fqName (the d)) (descs (Build_descs c)) = metric_names"
  by (simp add: descs_def Build_descs_def NewDesc_def BuildFQName_def
      Namespace_def Name_def metric_names_def)

lemma distinct_metric_names: "distinct metric_names"
  by (simp add: metric_names_def)

lemma descs_built_Build: "descs_built (fst (Build nc c))"
proof -
  have "descs (fst (Build nc c)) = descs (Build_descs c)"
    by (simp add: Build_def Let_def descs_def split: prod.splits option.splits)
  moreover have "descs (Build_descs (fst (Build nc c))) = descs (Build_descs c)"
    by (rule descs_Build_descs_const)
  ultimately show ?thesis by (simp add: descs_built_def)
qed

lemma descs_built_ok: "descs_built c \<Longrightarrow> list_all desc_ok (descs c)"
  using Build_descs_ok[of c] by (simp add: descs_built_def)

lemma emissions_ok: "descs_built c \<Longrightarrow> list_all (\<lambda>e. desc_ok (fst e)) (emissions c r)"
proof -
  assume "descs_built c"
  then have "list_all desc_ok (map fst (emissions c r))"
    by (simp add: map_fst_emissions descs_built_ok)
  then show ?thesis by (simp add: list_all_iff)
qed

section \<open>The three ways through Collect\<close>

lemma Collect_error:
  "pdhCollect (perfDataCollector c) (perfDataObject c) = (p, dst, Some er) \<Longrightarrow>
   Collect pdhCollect c ch =
     \<lparr>self = c\<lparr>perfDataCollector := p, perfDataObject := dst\<rparr>, chan = ch,
      ret = Inr (Some (Errorf ''failed to collect ADFS metrics'' er))\<rparr>"
  by (simp add: Collect_def)

lemma Collect_empty:
  "pdhCollect (perfDataCollector c) (perfDataObject c) = (p, [], None) \<Longrightarrow>
   Collect pdhCollect c ch =
     \<lparr>self = c\<lparr>perfDataCollector := p, perfDataObject := []\<rparr>, chan = ch,
      ret = Inr (Some (Errorf ''failed to collect ADFS metrics'' ErrNoDataUnexpected))\<rparr>"
  by (simp add: Collect_def)

lemma Collect_data:
  assumes "descs_built c"
    and "pdhCollect (perfDataCollector c) (perfDataObject c) = (p, r # rs, None)"
  shows "Collect pdhCollect c ch =
     \<lparr>self = c\<lparr>perfDataCollector := p, perfDataObject := r # rs\<rparr>,
      chan = ch @ map metric_of (emissions c r), ret = Inr None\<rparr>"
proof -
  have "send_all (emissions c r) ch = (ch @ map metric_of (emissions c r), None)"
    by (rule send_all_ok) (rule emissions_ok[OF assms(1)])
  then show ?thesis
    using assms(2) by (simp add: Collect_def index0_def emissions_update)
qed

lemma descs_self_Collect: "descs (self (Collect pdhCollect c ch)) = descs c"
  by (simp add: Collect_def Let_def descs_update index0_def
      split: prod.splits option.splits list.splits sum.splits)

text \<open>The descriptors stay as \<^verbatim>\<open>Build\<close> set them through any number of rounds.\<close>

lemma descs_built_Collect: "descs_built c \<Longrightarrow> descs_built (self (Collect pdhCollect c ch))"
  unfolding descs_built_def
  using descs_Build_descs_const[of "self (Collect pdhCollect c ch)" c]
  by (simp add: descs_self_Collect)


lemma values_emissions: "map val (map metric_of (emissions c r)) = code_values r"
  by (simp add: emissions_def metric_of_def code_values_def)


section \<open>Construction\<close>

text \<open>
  C10.  \<^verbatim>\<open>New\<close> is a total function of the configuration pointer alone: it cannot fail
  and has no operating system to talk to.  For a \<^verbatim>\<open>nil\<close> pointer the collector's
  configuration is \<open>ConfigDefaults\<close>, for any other pointer it is a copy of the
  configuration pointed to; in both cases the perf-data collector, the record slice and
  all 43 descriptor fields are unset.
\<close>

theorem New_sets_config_only:
  "config (New None) = ConfigDefaults \<and>
   (\<forall>cfg. config (New (Some cfg)) = cfg) \<and>
   (\<forall>x. perfDataCollector (New x) = None \<and> perfDataObject (New x) = [] \<and>
        length (descs (New x)) = 43 \<and> list_all (\<lambda>d. d = None) (descs (New x)))"
  by (simp add: New_def descs_def)

section \<open>Collect of the AD FS collector\<close>

text \<open>
  C2.  When the acquisition layer returns without an error and with no record, \<^verbatim>\<open>Collect\<close>
  returns an error that \<^verbatim>\<open>errors.Is\<close> classifies as \<open>ErrNoDataUnexpected\<close>, and writes
  nothing.  When it returns \<open>N > 0\<close> records, the collector holds exactly these \<open>N\<close>
  records afterwards and \<^verbatim>\<open>Collect\<close> returns no error at all (it returns \<^verbatim>\<open>nil\<close> once
  \<^verbatim>\<open>Build\<close> has set the descriptors).  An error of the acquisition layer itself, its own
  no-data error included, is returned wrapped, so that its classification is kept.
\<close>

theorem Collect_no_data_or_N_records:
  "(\<forall>p. pdhCollect (perfDataCollector c) (perfDataObject c) = (p, [], None) \<longrightarrow>
      (\<exists>e. ret (Collect pdhCollect c ch) = Inr (Some e) \<and> errors_Is e ErrNoDataUnexpected) \<and>
      chan (Collect pdhCollect c ch) = ch) \<and>
   (\<forall>p dst N. pdhCollect (perfDataCollector c) (perfDataObject c) = (p, dst, None) \<and>
        length dst = N \<and> 0 < N \<longrightarrow>
      perfDataObject (self (Collect pdhCollect c ch)) = dst \<and>
      length (perfDataObject (self (Collect pdhCollect c ch))) = N \<and>
      (\<forall>e. ret (Collect pdhCollect c ch) \<noteq> Inr (Some e)) \<and>
      (descs_built c \<longrightarrow> ret (Collect pdhCollect c ch) = Inr None)) \<and>
   (\<forall>p dst er. pdhCollect (perfDataCollector c) (perfDataObject c) = (p, dst, Some er) \<longrightarrow>
      (\<exists>e. ret (Collect pdhCollect c ch) = Inr (Some e) \<and> errors_Is e er))"
proof (intro conjI allI impI)
  fix p
  assume a: "pdhCollect (perfDataCollector c) (perfDataObject c) = (p, [], None)"
  show "\<exists>e. ret (Collect pdhCollect c ch) = Inr (Some e) \<and> errors_Is e ErrNoDataUnexpected"
    using a by (simp add: Collect_empty)
  show "chan (Collect pdhCollect c ch) = ch"
    using a by (simp add: Collect_empty)
next
  fix p dst N
  assume "pdhCollect (perfDataCollector c) (perfDataObject c) = (p, dst, None) \<and>
    length dst = N \<and> 0 < N"
  then obtain r rs where a: "pdhCollect (perfDataCollector c) (perfDataObject c) = (p, r # rs, None)"
    and d: "dst = r # rs" and n: "length dst = N"
    by (cases dst) auto
  show "perfDataObject (self (Collect pdhCollect c ch)) = dst"
    using a d by (simp add: Collect_def Let_def index0_def split: prod.splits option.splits)
  then show "length (perfDataObject (self (Collect pdhCollect c ch))) = N"
    using n by simp
  show "ret (Collect pdhCollect c ch) \<noteq> Inr (Some e)" for e
    using a by (simp add: Collect_def Let_def index0_def split: prod.splits option.splits)
  show "ret (Collect pdhCollect c ch) = Inr None" if "descs_built c"
    using that a by (simp add: Collect_data)
next
  fix p dst er
  assume a: "pdhCollect (perfDataCollector c) (perfDataObject c) = (p, dst, Some er)"
  show "\<exists>e. ret (Collect pdhCollect c ch) = Inr (Some e) \<and> errors_Is e er"
    using a by (simp add: Collect_error errors_Is_refl)
qed

theorem Collect_no_data_or_N_records_witness:
  "(\<exists>e. ret (Collect (\<lambda>p d. (p, [], None)) (New None) []) = Inr (Some e) \<and>
        errors_Is e ErrNoDataUnexpected) \<and>
   length (perfDataObject (self (Collect (\<lambda>p d. (p, [zero_values, zero_values], None))
      (fst (Build (pdh_NewCollector [''AD FS''] 1) (New None))) []))) = 2 \<and>
   ret (Collect (\<lambda>p d. (p, [zero_values, zero_values], None))
      (fst (Build (pdh_NewCollector [''AD FS''] 1) (New None))) []) = Inr None \<and>
   (\<exists>e. ret (Collect (\<lambda>p d. (p, [], Some (Pdh NoDataError))) (New None) []) = Inr (Some e) \<and>
        errors_Is e (Pdh NoDataError))"
proof -
  let ?c = "fst (Build (pdh_NewCollector [''AD FS''] 1) (New None))"
  have b: "descs_built ?c" by (rule descs_built_Build)
  show ?thesis
    using Collect_no_data_or_N_records[of "\<lambda>p d. (p, [], None)" "New None" "[]"]
      Collect_no_data_or_N_records[of "\<lambda>p d. (p, [zero_values, zero_values], None)" ?c "[]"]
      Collect_no_data_or_N_records[of "\<lambda>p d. (p, [], Some (Pdh NoDataError))" "New None" "[]"]
      b
    by simp
qed

text \<open>
  C7.  \<^verbatim>\<open>Collect\<close> on a collector whose descriptors \<^verbatim>\<open>Build\<close> has set never panics,
  whatever the acquisition layer answers: it returns.  For every collector, an error
  of the acquisition layer (a collect error or a decode problem) and an empty result are
  returned as error values.
\<close>

theorem Collect_returns_errors_as_values:
  "(descs_built c \<longrightarrow> (\<exists>eo. ret (Collect pdhCollect c ch) = Inr eo)) \<and>
   (\<forall>p dst er. pdhCollect (perfDataCollector c) (perfDataObject c) = (p, dst, Some er) \<longrightarrow>
      ret (Collect pdhCollect c ch) = Inr (Some (Errorf ''failed to collect ADFS metrics'' er))) \<and>
   (\<forall>p. pdhCollect (perfDataCollector c) (perfDataObject c) = (p, [], None) \<longrightarrow>
      ret (Collect pdhCollect c ch) =
        Inr (Some (Errorf ''failed to collect ADFS metrics'' ErrNoDataUnexpected)))"
proof (intro conjI allI impI)
  assume b: "descs_built c"
  obtain p dst e where a: "pdhCollect (perfDataCollector c) (perfDataObject c) = (p, dst, e)"
    by (cases "pdhCollect (perfDataCollector c) (perfDataObject c)") auto
  show "\<exists>eo. ret (Collect pdhCollect c ch) = Inr eo"
  proof (cases e)
    case (Some er)
    with a show ?thesis by (simp add: Collect_error)
  next
    case None
    show ?thesis
    proof (cases dst)
      case Nil
      with a None show ?thesis by (simp add: Collect_empty)
    next
      case (Cons r rs)
      with a None show ?thesis by (simp add: Collect_data[OF b])
    qed
  qed
next
  fix p dst er
  assume "pdhCollect (perfDataCollector c) (perfDataObject c) = (p, dst, Some er)"
  then show "ret (Collect pdhCollect c ch) = Inr (Some (Errorf ''failed to collect ADFS metrics'' er))"
    by (simp add: Collect_error)
next
  fix p
  assume "pdhCollect (perfDataCollector c) (perfDataObject c) = (p, [], None)"
  then show "ret (Collect pdhCollect c ch) =
      Inr (Some (Errorf ''failed to collect ADFS metrics'' ErrNoDataUnexpected))"
    by (simp add: Collect_empty)
qed

theorem Collect_returns_errors_as_values_witness:
  "descs_built (fst (Build (pdh_NewCollector [''AD FS''] 1) (New None))) \<and>
   (\<exists>eo. ret (Collect (\<lambda>p d. (p, [zero_values], None))
      (fst (Build (pdh_NewCollector [''AD FS''] 1) (New None))) []) = Inr eo) \<and>
   ret (Collect (\<lambda>p d. (p, [], Some (Pdh DecodeError)))
      (fst (Build (pdh_NewCollector [''AD FS''] 1) (New None))) []) =
     Inr (Some (Errorf ''failed to collect ADFS metrics'' (Pdh DecodeError))) \<and>
   ret (Collect (\<lambda>p d. (p, [], None))
      (fst (Build (pdh_NewCollector [''AD FS''] 1) (New None))) []) =
     Inr (Some (Errorf ''failed to collect ADFS metrics'' ErrNoDataUnexpected))"
proof -
  let ?c = "fst (Build (pdh_NewCollector [''AD FS''] 1) (New None))"
  have b: "descs_built ?c" by (rule descs_built_Build)
  show ?thesis
    using Collect_returns_errors_as_values[of ?c "\<lambda>p d. (p, [zero_values], None)" "[]"]
      Collect_returns_errors_as_values[of ?c "\<lambda>p d. (p, [], Some (Pdh DecodeError))" "[]"]
      Collect_returns_errors_as_values[of ?c "\<lambda>p d. (p, [], None)" "[]"]
      b
    by simp
qed

text \<open>
  C8.  A call of \<^verbatim>\<open>Collect\<close> that returns an error has written nothing to the channel:
  the channel is as it was.  \<^verbatim>\<open>Collect\<close> only appends, and on a collector that
  \<^verbatim>\<open>Build\<close> has set up the channel changes exactly when \<^verbatim>\<open>nil\<close> is returned.  All writes
  are statements of \<^verbatim>\<open>Collect\<close> itself, before its \<^verbatim>\<open>return\<close>; it starts no goroutine.
\<close>

theorem Collect_error_writes_nothing:
  "(\<forall>e. ret (Collect pdhCollect c ch) = Inr (Some e) \<longrightarrow> chan (Collect pdhCollect c ch) = ch) \<and>
   (\<exists>new. chan (Collect pdhCollect c ch) = ch @ new) \<and>
   (descs_built c \<longrightarrow>
      (chan (Collect pdhCollect c ch) \<noteq> ch) = (ret (Collect pdhCollect c ch) = Inr None))"
proof (intro conjI allI impI)
  fix e
  assume "ret (Collect pdhCollect c ch) = Inr (Some e)"
  then show "chan (Collect pdhCollect c ch) = ch"
    by (auto simp: Collect_def Let_def split: prod.splits option.splits if_splits sum.splits)
next
  obtain p dst e where a: "pdhCollect (perfDataCollector c) (perfDataObject c) = (p, dst, e)"
    by (cases "pdhCollect (perfDataCollector c) (perfDataObject c)") auto
  have "\<exists>new. fst (send_all es ch0) = ch0 @ new" for es ch0
  proof (induction es arbitrary: ch0)
    case Nil
    show ?case by simp
  next
    case (Cons x es)
    obtain d vt v where x: "x = (d, vt, v)" by (cases x)
    show ?case
    proof (cases "MustNewConstMetric d vt v []")
      case (Inl pn)
      with x show ?thesis by simp
    next
      case (Inr m)
      from Cons.IH[of "ch0 @ [m]"] obtain new where "fst (send_all es (ch0 @ [m])) = (ch0 @ [m]) @ new"
        by blast
      with x Inr show ?thesis by simp
    qed
  qed
  then obtain new where n: "fst (send_all (emissions (c\<lparr>perfDataCollector := p, perfDataObject := dst\<rparr>)
      (hd dst)) ch) = ch @ new"
    by blast
  show "\<exists>new. chan (Collect pdhCollect c ch) = ch @ new"
  proof (cases e)
    case (Some er)
    with a show ?thesis by (simp add: Collect_error)
  next
    case None
    show ?thesis
    proof (cases dst)
      case Nil
      with a None show ?thesis by (simp add: Collect_empty)
    next
      case (Cons r rs)
      with a None n show ?thesis
        by (cases "send_all (emissions (c\<lparr>perfDataCollector := p, perfDataObject := r # rs\<rparr>) r) ch")
          (auto simp: Collect_def Let_def index0_def split: option.splits)
    qed
  qed
next
  assume b: "descs_built c"
  obtain p dst e where a: "pdhCollect (perfDataCollector c) (perfDataObject c) = (p, dst, e)"
    by (cases "pdhCollect (perfDataCollector c) (perfDataObject c)") auto
  show "(chan (Collect pdhCollect c ch) \<noteq> ch) = (ret (Collect pdhCollect c ch) = Inr None)"
  proof (cases e)
    case (Some er)
    with a show ?thesis by (simp add: Collect_error)
  next
    case None
    show ?thesis
    proof (cases dst)
      case Nil
      with a None show ?thesis by (simp add: Collect_empty)
    next
      case (Cons r rs)
      with a None show ?thesis by (simp add: Collect_data[OF b] emissions_def)
    qed
  qed
qed

theorem Collect_error_writes_nothing_witness:
  "ret (Collect (\<lambda>p d. (p, [], Some (Pdh TransientCollectionError))) (New None) []) =
     Inr (Some (Errorf ''failed to collect ADFS metrics'' (Pdh TransientCollectionError))) \<and>
   chan (Collect (\<lambda>p d. (p, [], Some (Pdh TransientCollectionError))) (New None) []) = []"
proof -
  have h: "ret (Collect (\<lambda>p d. (p, [], Some (Pdh TransientCollectionError))) (New None) []) =
     Inr (Some (Errorf ''failed to collect ADFS metrics'' (Pdh TransientCollectionError)))"
    by (simp add: Collect_def)
  from Collect_error_writes_nothing[of "\<lambda>p d. (p, [], Some (Pdh TransientCollectionError))" "New None" "[]"] h
  show ?thesis by simp
qed

text \<open>
  C1.  The scenario of the specification.  The acquisition layer creates a collector for
  the object \<^verbatim>\<open>"AD FS"\<close> and its \<^verbatim>\<open>Collect\<close> decodes one record, whose field
  \<open>PassiveRequests\<close> is 42.  Then \<^verbatim>\<open>Build\<close> and \<^verbatim>\<open>Collect\<close> both return \<^verbatim>\<open>nil\<close>, the
  collector holds exactly that one record, and exactly one of the metrics written is
  named \<^verbatim>\<open>windows_adfs_passive_requests_total\<close>: it has the value 42 and the type
  counter.
\<close>

theorem adfs_passive_requests_scenario:
  assumes "NewCollector CounterTypeRaw ''AD FS'' None = (Some q, None)"
    and "pdhCollect (Some q) [] = (q1, [r], None)"
    and "PassiveRequests r = float64_of_nat 42"
  shows "valof (float64_of_nat 42) = 42 \<and>
    snd (Build NewCollector (New cfg)) = None \<and>
    ret (Collect pdhCollect (fst (Build NewCollector (New cfg))) []) = Inr None \<and>
    perfDataObject (self (Collect pdhCollect (fst (Build NewCollector (New cfg))) [])) = [r] \<and>
    filter (\<lambda>m. fqName (desc m) = ''windows_adfs_passive_requests_total'')
      (chan (Collect pdhCollect (fst (Build NewCollector (New cfg))) [])) =
      [\<lparr>desc = NewDesc ''windows_adfs_passive_requests_total''
                ''Total number of passive (browser-based) requests'' [] [],
        valType = CounterValue, val = float64_of_nat 42\<rparr>]"
proof -
  let ?c = "fst (Build NewCollector (New cfg))"
  have e: "snd (Build NewCollector (New cfg)) = None"
    using assms(1) by (simp add: Build_def)
  have pc: "perfDataCollector ?c = Some q"
    using assms(1) by (simp add: Build_def)
  have po: "perfDataObject ?c = []"
    using assms(1) by (simp add: Build_def Build_descs_def New_def)
  have a: "pdhCollect (perfDataCollector ?c) (perfDataObject ?c) = (q1, [r], None)"
    using assms(2) pc po by simp
  have b: "descs_built ?c" by (rule descs_built_Build)
  have col: "Collect pdhCollect ?c [] =
      \<lparr>self = ?c\<lparr>perfDataCollector := q1, perfDataObject := [r]\<rparr>,
       chan = [] @ map metric_of (emissions ?c r), ret = Inr None\<rparr>"
    using b a by (rule Collect_data)
  have em: "emissions ?c r = emissions (Build_descs (New cfg)) r"
    using assms(1) by (simp add: Build_def emissions_def)
  have f: "filter (\<lambda>m. fqName (desc m) = ''windows_adfs_passive_requests_total'')
      (map metric_of (emissions (Build_descs (New cfg)) r)) =
      [\<lparr>desc = NewDesc ''windows_adfs_passive_requests_total''
                ''Total number of passive (browser-based) requests'' [] [],
        valType = CounterValue, val = float64_of_nat 42\<rparr>]"
    using assms(3)
    by (simp add: emissions_def metric_of_def Build_descs_def NewDesc_def BuildFQName_def
        Namespace_def Name_def)
  show ?thesis
    using e col em f valof_float64_of_nat_42 by simp
qed

theorem adfs_passive_requests_scenario_witness:
  "pdh_NewCollector [''AD FS''] 1 CounterTypeRaw ''AD FS'' None =
     (Some \<lparr>object = ''AD FS'', handle = 1, is_open = True, lastSize = 0\<rparr>, None) \<and>
   PassiveRequests (zero_values\<lparr>PassiveRequests := float64_of_nat 42\<rparr>) = float64_of_nat 42 \<and>
   ret (Collect (\<lambda>p d. (p, [zero_values\<lparr>PassiveRequests := float64_of_nat 42\<rparr>], None))
      (fst (Build (pdh_NewCollector [''AD FS''] 1) (New None))) []) = Inr None \<and>
   map val (filter (\<lambda>m. fqName (desc m) = ''windows_adfs_passive_requests_total'')
      (chan (Collect (\<lambda>p d. (p, [zero_values\<lparr>PassiveRequests := float64_of_nat 42\<rparr>], None))
         (fst (Build (pdh_NewCollector [''AD FS''] 1) (New None))) []))) = [float64_of_nat 42]"
proof -
  have h1: "pdh_NewCollector [''AD FS''] 1 CounterTypeRaw ''AD FS'' None =
     (Some \<lparr>object = ''AD FS'', handle = 1, is_open = True, lastSize = 0\<rparr>, None)"
    by (simp add: pdh_NewCollector_def)
  have h2: "(\<lambda>p d. (p, [zero_values\<lparr>PassiveRequests := float64_of_nat 42\<rparr>], None))
      (Some \<lparr>object = ''AD FS'', handle = 1, is_open = True, lastSize = 0\<rparr>) [] =
      (Some \<lparr>object = ''AD FS'', handle = 1, is_open = True, lastSize = 0\<rparr>,
       [zero_values\<lparr>PassiveRequests := float64_of_nat 42\<rparr>], None)"
    by simp
  have h3: "PassiveRequests (zero_values\<lparr>PassiveRequests := float64_of_nat 42\<rparr>) = float64_of_nat 42"
    by simp
  from adfs_passive_requests_scenario[where NewCollector = "pdh_NewCollector [''AD FS''] 1"
      and pdhCollect = "\<lambda>p d. (p, [zero_values\<lparr>PassiveRequests := float64_of_nat 42\<rparr>], None)"
      and cfg = None, OF h1 h2 h3] h1 h3
  show ?thesis by simp
qed

text \<open>
  C9.  A successful \<^verbatim>\<open>Collect\<close> appends exactly 43 metrics to the channel: one for each
  descriptor field, in the order of the statements, under 43 different names, all of
  type counter.  Their values are those of the 43 fields of the first record, two of
  them multiplied by \<^verbatim>\<open>math.Pow(10, -8)\<close>; later records are ignored: the channel is the
  same as if the acquisition layer had returned only the first record.
\<close>

theorem Collect_emits_43_from_first_record:
  assumes "descs_built c"
    and "pdhCollect (perfDataCollector c) (perfDataObject c) = (p, r # rs, None)"
  shows "ret (Collect pdhCollect c ch) = Inr None \<and>
    length (chan (Collect pdhCollect c ch)) = length ch + 43 \<and>
    take (length ch) (chan (Collect pdhCollect c ch)) = ch \<and>
    map (\<lambda>m. Some (desc m)) (drop (length ch) (chan (Collect pdhCollect c ch))) = descs c \<and>
    map (\<lambda>m. fqName (desc m)) (drop (length ch) (chan (Collect pdhCollect c ch))) = metric_names \<and>
    distinct metric_names \<and> length metric_names = 43 \<and>
    list_all (\<lambda>m. valType m = CounterValue) (drop (length ch) (chan (Collect pdhCollect c ch))) \<and>
    map val (drop (length ch) (chan (Collect pdhCollect c ch))) = code_values r \<and>
    chan (Collect pdhCollect c ch) = chan (Collect (\<lambda>x y. (p, [r], None)) c ch)"
proof -
  have col: "Collect pdhCollect c ch =
      \<lparr>self = c\<lparr>perfDataCollector := p, perfDataObject := r # rs\<rparr>,
       chan = ch @ map metric_of (emissions c r), ret = Inr None\<rparr>"
    using assms by (rule Collect_data)
  have col1: "Collect (\<lambda>x y. (p, [r], None)) c ch =
      \<lparr>self = c\<lparr>perfDataCollector := p, perfDataObject := [r]\<rparr>,
       chan = ch @ map metric_of (emissions c r), ret = Inr None\<rparr>"
    using assms(1) by (simp add: Collect_data)
  have ok: "list_all desc_ok (descs c)"
    using assms(1) by (rule descs_built_ok)
  have ds: "map (\<lambda>m. Some (desc m)) (map metric_of (emissions c r)) = descs c"
  proof -
    have "map (\<lambda>m. Some (desc m)) (map metric_of (emissions c r)) =
        map (\<lambda>e. Some (the (fst e))) (emissions c r)"
      by (simp add: metric_of_def split_def)
    also have "\<dots> = map (\<lambda>d. Some (the d)) (map fst (emissions c r))"
      by simp
    also have "\<dots> = map (\<lambda>d. Some (the d)) (descs c)"
      by (simp only: map_fst_emissions)
    also have "\<dots> = descs c"
      using ok by (induction "descs c") (auto simp: desc_ok_def split: option.splits intro: map_idI simp: list_all_iff)
    finally show ?thesis .
  qed
  have nm: "map (\<lambda>m. fqName (desc m)) (map metric_of (emissions c r)) = metric_names"
  proof -
    have "map (\<lambda>m. fqName (desc m)) (map metric_of (emissions c r)) =
        map (\<lambda>d. fqName (the d)) (map fst (emissions c r))"
      by (simp add: metric_of_def split_def)
    also have "\<dots> = map (\<lambda>d. fqName (the d)) (descs (Build_descs c))"
      using assms(1) by (simp only: map_fst_emissions descs_built_def)
    finally show ?thesis by (simp only: Build_descs_names)
  qed
  have ty: "list_all (\<lambda>m. valType m = CounterValue) (map metric_of (emissions c r))"
    by (simp add: emissions_def metric_of_def)
  have len: "length metric_names = 43"
    by (simp add: metric_names_def)
  have vs: "map val (map metric_of (emissions c r)) = code_values r"
    by (rule values_emissions)
  show ?thesis
    using col col1 ds nm ty len vs distinct_metric_names by (simp add: length_emissions)
qed

theorem Collect_emits_43_from_first_record_witness:
  "descs_built (fst (Build (pdh_NewCollector [''AD FS''] 1) (New None))) \<and>
   length (chan (Collect (\<lambda>p d. (p, [zero_values\<lparr>PassiveRequests := float64_of_nat 42\<rparr>, zero_values], None))
      (fst (Build (pdh_NewCollector [''AD FS''] 1) (New None))) [])) = 43 \<and>
   chan (Collect (\<lambda>p d. (p, [zero_values\<lparr>PassiveRequests := float64_of_nat 42\<rparr>, zero_values], None))
      (fst (Build (pdh_NewCollector [''AD FS''] 1) (New None))) []) =
   chan (Collect (\<lambda>p d. (Some \<lparr>object = ''AD FS'', handle = 1, is_open = True, lastSize = 0\<rparr>,
        [zero_values\<lparr>PassiveRequests := float64_of_nat 42\<rparr>], None))
      (fst (Build (pdh_NewCollector [''AD FS''] 1) (New None))) [])"
proof -
  let ?c = "fst (Build (pdh_NewCollector [''AD FS''] 1) (New None))"
  let ?q = "Some \<lparr>object = ''AD FS'', handle = 1, is_open = True, lastSize = 0\<rparr>"
  have b: "descs_built ?c" by (rule descs_built_Build)
  have pc: "perfDataCollector ?c = ?q"
    by (simp add: Build_def pdh_NewCollector_def)
  have a: "(\<lambda>p d. (p, [zero_values\<lparr>PassiveRequests := float64_of_nat 42\<rparr>, zero_values], None))
      (perfDataCollector ?c) (perfDataObject ?c) =
      (?q, zero_values\<lparr>PassiveRequests := float64_of_nat 42\<rparr> # [zero_values], None)"
    using pc by simp
  note t = Collect_emits_43_from_first_record[where c = ?c and ch = "[]"
      and pdhCollect = "\<lambda>p d. (p, [zero_values\<lparr>PassiveRequests := float64_of_nat 42\<rparr>, zero_values], None)",
      OF b a]
  from t have "length (chan (Collect
      (\<lambda>p d. (p, [zero_values\<lparr>PassiveRequests := float64_of_nat 42\<rparr>, zero_values], None)) ?c [])) =
      length ([] :: Metric list) + 43"
    by (elim conjE)
  then have l: "length (chan (Collect
      (\<lambda>p d. (p, [zero_values\<lparr>PassiveRequests := float64_of_nat 42\<rparr>, zero_values], None)) ?c [])) = 43"
    by simp
  from t have e: "chan (Collect
      (\<lambda>p d. (p, [zero_values\<lparr>PassiveRequests := float64_of_nat 42\<rparr>, zero_values], None)) ?c []) =
      chan (Collect (\<lambda>p d. (?q, [zero_values\<lparr>PassiveRequests := float64_of_nat 42\<rparr>], None)) ?c [])"
    by (elim conjE)
  from b l e show ?thesis by (intro conjI)
qed




section \<open>Close\<close>

text \<open>
  C4.  With the acquisition layer's \<^verbatim>\<open>Close\<close> as the specification describes it,
  \<^verbatim>\<open>Close\<close> of the AD FS collector returns \<^verbatim>\<open>nil\<close> and does not panic for every
  collector, a collector that was never built included; a second call in a row returns
  \<^verbatim>\<open>nil\<close> again and changes nothing; and over both calls the operating system sees one
  release of the handle if it was open and none otherwise.
\<close>

theorem Close_idempotent_and_total:
  "snd (snd (Close pdh_Close c w)) = Inr None \<and>
   (case Close pdh_Close c w of
      (c1, w1, r1) \<Rightarrow> Close pdh_Close c1 w1 = (c1, w1, Inr None) \<and>
        w1 = w @ (case perfDataCollector c of
                    None \<Rightarrow> []
                  | Some q \<Rightarrow> if is_open q then [handle q] else [])) \<and>
   Close pdh_Close (New cfg) w = (New cfg, w, Inr None)"
proof (intro conjI)
  show "snd (snd (Close pdh_Close c w)) = Inr None"
    by (simp add: Close_def pdh_Close_def split: option.splits)
  show "case Close pdh_Close c w of
      (c1, w1, r1) \<Rightarrow> Close pdh_Close c1 w1 = (c1, w1, Inr None) \<and>
        w1 = w @ (case perfDataCollector c of
                    None \<Rightarrow> []
                  | Some q \<Rightarrow> if is_open q then [handle q] else [])"
  proof (cases "perfDataCollector c")
    case None
    then show ?thesis by (simp add: Close_def pdh_Close_def)
  next
    case (Some q)
    then show ?thesis by (cases "is_open q") (simp_all add: Close_def pdh_Close_def)
  qed
  show "Close pdh_Close (New cfg) w = (New cfg, w, Inr None)"
    by (simp add: Close_def pdh_Close_def New_def)
qed

theorem Close_idempotent_and_total_witness:
  "fst (snd (Close pdh_Close (fst (Build (pdh_NewCollector [''AD FS''] 7) (New None))) [])) = [7] \<and>
   (case Close pdh_Close (fst (Build (pdh_NewCollector [''AD FS''] 7) (New None))) [] of
      (c1, w1, r1) \<Rightarrow> Close pdh_Close c1 w1 = (c1, [7], Inr None))"
proof -
  let ?c = "fst (Build (pdh_NewCollector [''AD FS''] 7) (New None))"
  have pc: "perfDataCollector ?c = Some \<lparr>object = ''AD FS'', handle = 7, is_open = True, lastSize = 0\<rparr>"
    by (simp add: Build_def pdh_NewCollector_def)
  from Close_idempotent_and_total[where c = ?c and w = "[]" and cfg = None] pc
  show ?thesis by (auto split: prod.splits)
qed

section \<open>The buffer negotiator\<close>

lemma negotiate_counting:
  "case negotiate (counting os) (n, s) cached of
     (res, sz, (n1, s1)) \<Rightarrow> n < n1 \<and> n1 \<le> n + 2"
  by (auto simp: negotiate_def counting_def split: prod.splits os_reply.splits)

lemma negotiate_always_too_small:
  "negotiate (counting always_too_small) (0, ()) cached = (Inl DecodeError, cached, (2, ()))"
  by (simp add: negotiate_def counting_def always_too_small_def)

text \<open>
  C5.  With the negotiator as the specification describes it, one negotiation sends the
  operating system one or two decode requests, whatever it answers.  Against the
  operating system that always answers "too small" it sends exactly two and fails with
  \<open>DecodeError\<close>; \<^verbatim>\<open>Collect\<close> of a built AD FS collector then returns that error, wrapped,
  after the same two requests.
\<close>

theorem negotiate_at_most_two_attempts:
  "(case negotiate (counting os) (n, s) cached of
      (res, sz, (n1, s1)) \<Rightarrow> n < n1 \<and> n1 \<le> n + 2) \<and>
   negotiate (counting always_too_small) (0, ()) cached = (Inl DecodeError, cached, (2, ())) \<and>
   snd (pdh_Collect (counting always_too_small) decode (0, ()) (Some q) dst) = (2, ()) \<and>
   ret (Collect (\<lambda>p dst. fst (pdh_Collect always_too_small decode () p dst))
          (c\<lparr>perfDataCollector := Some q\<rparr>) ch) =
     Inr (Some (Errorf ''failed to collect ADFS metrics'' (Pdh DecodeError)))"
proof (intro conjI)
  show "case negotiate (counting os) (n, s) cached of
      (res, sz, (n1, s1)) \<Rightarrow> n < n1 \<and> n1 \<le> n + 2"
    by (rule negotiate_counting)
  show "negotiate (counting always_too_small) (0, ()) cached = (Inl DecodeError, cached, (2, ()))"
    by (rule negotiate_always_too_small)
  show "snd (pdh_Collect (counting always_too_small) decode (0, ()) (Some q) dst) = (2, ())"
    by (simp add: pdh_Collect_def negotiate_always_too_small)
  have "fst (pdh_Collect always_too_small decode () (Some q) d) =
      (Some q, [], Some (Pdh DecodeError))" for d
    by (simp add: pdh_Collect_def negotiate_def always_too_small_def)
  then show "ret (Collect (\<lambda>p dst. fst (pdh_Collect always_too_small decode () p dst))
          (c\<lparr>perfDataCollector := Some q\<rparr>) ch) =
     Inr (Some (Errorf ''failed to collect ADFS metrics'' (Pdh DecodeError)))"
    by (simp add: Collect_def)
qed

theorem negotiate_at_most_two_attempts_witness:
  "negotiate (counting needs_100) (0, ()) 0 = (Inr ''raw'', 100, (2, ())) \<and>
   negotiate (counting needs_100) (0, ()) 100 = (Inr ''raw'', 100, (1, ()))"
proof -
  from negotiate_at_most_two_attempts[where os = needs_100 and n = 0 and s = "()" and cached = 0]
  show ?thesis by (simp add: negotiate_def counting_def needs_100_def)
qed

section \<open>The scheduler\<close>

lemma perCollector_record_round:
  "perCollector (record_round out c) = (perCollector out)(cname c \<mapsto> status_of c)"
  by (simp add: record_round_def status_of_def split: round_outcome.splits option.splits)

lemma stream_record_round: "stream (record_round out c) = stream out @ contribution c"
  by (simp add: record_round_def contribution_def split: round_outcome.splits option.splits)

lemma success_record_round: "success (record_round out c) = success out"
  by (simp add: record_round_def split: round_outcome.splits option.splits)

lemma stream_foldl:
  "stream (foldl record_round out cs) = stream out @ concat (map contribution cs)"
  by (induction cs arbitrary: out) (simp_all add: stream_record_round)

lemma success_foldl: "success (foldl record_round out cs) = success out"
  by (induction cs arbitrary: out) (simp_all add: success_record_round)

lemma perCollector_foldl_other:
  "n \<notin> cname ` set cs \<Longrightarrow> perCollector (foldl record_round out cs) n = perCollector out n"
  by (induction cs arbitrary: out) (auto simp: perCollector_record_round)

lemma perCollector_foldl:
  "distinct (map cname cs) \<Longrightarrow> c \<in> set cs \<Longrightarrow>
   perCollector (foldl record_round out cs) (cname c) = Some (status_of c)"
proof (induction cs arbitrary: out)
  case Nil
  then show ?case by simp
next
  case (Cons x cs)
  show ?case
  proof (cases "c = x")
    case True
    from Cons.prems(1) have "cname x \<notin> cname ` set cs" by simp
    with True show ?thesis
      by (simp add: perCollector_foldl_other perCollector_record_round)
  next
    case False
    with Cons.prems have "c \<in> set cs" "distinct (map cname cs)" by simp_all
    with Cons.IH show ?thesis by simp
  qed
qed

text \<open>
  C6.  With the scheduler as the specification describes it, and collector names that
  are distinct: the merged stream of a round is made of the metrics of the collectors
  that returned without error, in registration order, so every metric of every such
  collector is in it; each collector that ran is recorded with its own outcome, a
  failing one with the error it returned as the reason; and the scrape succeeds
  whenever the infrastructure did, whatever the collectors returned.
\<close>

theorem scrape_isolates_failures:
  assumes "distinct (map cname (filter runnable cs))"
  shows "stream (scrape ok cs) = concat (map contribution (filter runnable cs)) \<and>
    (\<forall>c \<in> set cs. runnable c \<longrightarrow>
       perCollector (scrape ok cs) (cname c) = Some (status_of c) \<and>
       (\<forall>ms. outcome c = Finished ms None \<longrightarrow>
          status_of c = Success \<and> set ms \<subseteq> set (stream (scrape ok cs))) \<and>
       (\<forall>ms e. outcome c = Finished ms (Some e) \<longrightarrow> status_of c = Failure (Reason e))) \<and>
    success (scrape ok cs) = ok"
proof (intro conjI ballI impI allI)
  show s: "stream (scrape ok cs) = concat (map contribution (filter runnable cs))"
    by (simp add: scrape_def stream_foldl)
  show "success (scrape ok cs) = ok"
    by (simp add: scrape_def success_foldl)
  fix c
  assume c: "c \<in> set cs" and r: "runnable c"
  then have "c \<in> set (filter runnable cs)" by simp
  with assms show "perCollector (scrape ok cs) (cname c) = Some (status_of c)"
    unfolding scrape_def by (rule perCollector_foldl)
  {
    fix ms
    assume o: "outcome c = Finished ms None"
    then show "status_of c = Success" by (simp add: status_of_def)
    from o have "contribution c = ms" by (simp add: contribution_def)
    with c r show "set ms \<subseteq> set (stream (scrape ok cs))"
      unfolding s by auto
  }
  {
    fix ms e
    assume "outcome c = Finished ms (Some e)"
    then show "status_of c = Failure (Reason e)" by (simp add: status_of_def)
  }
qed

theorem scrape_isolates_failures_witness:
  "distinct (map cname (filter runnable three_collectors)) \<and>
   stream (scrape True three_collectors) = [''windows_cpu_a'', ''windows_cpu_b'', ''windows_os_a''] \<and>
   perCollector (scrape True three_collectors) ''adfs'' =
     Some (Failure (Reason (Errorf ''failed to collect ADFS metrics'' ErrNoDataUnexpected))) \<and>
   perCollector (scrape True three_collectors) ''cpu'' = Some Success \<and>
   perCollector (scrape True three_collectors) ''os'' = Some Success \<and>
   success (scrape True three_collectors)"
proof -
  have d: "distinct (map cname (filter runnable three_collectors))"
    by (simp add: three_collectors_def runnable_def)
  from scrape_isolates_failures[OF d, of True] d
  show ?thesis
    by (simp add: three_collectors_def runnable_def contribution_def status_of_def)
qed


end
